theory Spec2Isabelle
  imports Main
begin

section \<open>Data model (types.py)\<close>

text \<open>
  The two enumerations of \<^verbatim>\<open>types.py\<close>. Both have a member called INVALID; the
  members of \<^verbatim>\<open>PropertyType\<close> carry the prefix \<open>PT_\<close> here.
\<close>

datatype PropertyType = PT_INVALID | PT_STRING | PT_NUMBER | PT_BOOLEAN | PT_ADDRESS | PT_BYTES

datatype EdgeStatus = INVALID | PENDING | ACCEPTED | REJECTED

text \<open>
  Python values, as far as the builders see them: the \<^verbatim>\<open>Any\<close> of a property value,
  the value a builder's commit operation returns, and the edge record that
  \<^verbatim>\<open>get_edge\<close> hands to \<^verbatim>\<open>EdgeBuilder.status\<close>.
\<close>

datatype pyval =
    PyNone
  | PyStr string
  | PyInt int
  | PyBool bool
  | PyStatus EdgeStatus
  | PyTuple "pyval list"

text \<open>
  The exceptions that can leave the modelled code. \<open>ChainError\<close> is whatever the web3
  call of the registry contract raises (transport failure, contract revert). An
  AttributeError carries the name of the missing attribute.
\<close>

datatype error =
    ValueError string
  | AttributeError string
  | TypeError string
  | IndexError string
  | ChainError string

record NodeProperty =
  key :: string
  prop_value :: pyval
  prop_type :: PropertyType
  property_id :: string

section \<open>Registry client (node\_type\_registry.py)\<close>

text \<open>
  A \<^verbatim>\<open>NodeTypeRegistry\<close> object is bound to a contract. The field \<open>propertyId\<close> is
  the answer of \<^verbatim>\<open>self.contract.functions.propertyId(node_type_id, property_key).call()\<close>:
  the id string, or the exception the call raises.
\<close>

record NodeTypeRegistry =
  reg_debug :: bool
  address :: string
  propertyId :: "string \<Rightarrow> string \<Rightarrow> error + string"

section \<open>Calls issued by the client\<close>

text \<open>
  Two logs are kept. The first, \<open>calls\<close>, lists the operations of the client and of the
  registry client that were invoked and ran past their guards, in order, with their
  arguments. The operations of \<^verbatim>\<open>GraphNode\<close> are stubs in the source: after the
  guards, the body is the comment "This would involve calling the smart contract method"
  and a constant result. An entry of such an operation says that the operation ran, not
  that a contract call was made.
\<close>

datatype event =
    AddNode string
  | AddEdge string string string
  | SetEdgeProperties string string "NodeProperty list"
  | AddProperties string "NodeProperty list"
  | AddDocument string string
  | RemoveDocument string
  | AnswerEdge string string EdgeStatus
  | PropertyId string string

text \<open>
  The second log, \<open>requests\<close>, lists the contract calls really made through web3: the
  name of the contract function and its arguments. The only one in the source is the
  \<^verbatim>\<open>propertyId(...).call()\<close> of the registry client.
\<close>

datatype request = ContractCall string "string list"

section \<open>Graph node client (graph\_node.py, class GraphNode)\<close>

text \<open>
  The fields of a \<^verbatim>\<open>GraphNode\<close> that the operations read. \<open>contract\<close> and
  \<open>node_type_registry\<close> are \<^verbatim>\<open>None\<close> until bound by the constructor.
\<close>

record GraphNode =
  debug :: bool
  contract :: "string option"
  node_type_registry :: "NodeTypeRegistry option"
  node_id :: string
  node_type_id :: string
  graph_node_name :: string

text \<open>
  The state every operation runs in: the client object, the two logs and the lines
  printed so far.
\<close>

record world =
  client :: GraphNode
  calls :: "event list"
  requests :: "request list"
  stdout :: "string list"

text \<open>
  \<^verbatim>\<open>GraphNode.__init__\<close>, with the configuration already resolved to an optional
  contract handle and an optional registry client: the session fields start empty.
\<close>

definition GraphNode_init :: "bool \<Rightarrow> string option \<Rightarrow> NodeTypeRegistry option \<Rightarrow> GraphNode" where
  "GraphNode_init dbg c r =
     \<lparr>debug = dbg, contract = c, node_type_registry = r,
      node_id = [], node_type_id = [], graph_node_name = []\<rparr>"

definition new_world :: "GraphNode \<Rightarrow> world" where
  "new_world g = \<lparr>client = g, calls = [], requests = [], stdout = []\<rparr>"

definition check_contract :: "GraphNode \<Rightarrow> error + unit" where
  "check_contract g =
     (case contract g of None \<Rightarrow> Inl (ValueError ''Contract not initialized'')
      | Some _ \<Rightarrow> Inr ())"

definition check_registry :: "GraphNode \<Rightarrow> error + unit" where
  "check_registry g =
     (case node_type_registry g of None \<Rightarrow> Inl (ValueError ''Registry not initialized'')
      | Some _ \<Rightarrow> Inr ())"

definition issue :: "event \<Rightarrow> world \<Rightarrow> world" where
  "issue ev w = w\<lparr>calls := calls w @ [ev]\<rparr>"

definition send :: "request \<Rightarrow> world \<Rightarrow> world" where
  "send rq w = w\<lparr>requests := requests w @ [rq]\<rparr>"

text \<open>The dictionary \<^verbatim>\<open>add_node\<close> returns.\<close>

record add_node_result =
  res_node_id :: string
  res_properties :: "pyval list"

definition add_node :: "string \<Rightarrow> world \<Rightarrow> (error + add_node_result) \<times> world" where
  "add_node name w =
     (case check_contract (client w) of Inl e \<Rightarrow> (Inl e, w)
      | Inr _ \<Rightarrow>
     (case check_registry (client w) of Inl e \<Rightarrow> (Inl e, w)
      | Inr _ \<Rightarrow>
         (Inr \<lparr>res_node_id = ''generated_node_id'', res_properties = []\<rparr>,
          issue (AddNode name) w)))"

definition add_edge :: "string \<Rightarrow> string \<Rightarrow> string \<Rightarrow> world \<Rightarrow> (error + string) \<times> world" where
  "add_edge edge_name to_addr descriptor w =
     (case check_contract (client w) of Inl e \<Rightarrow> (Inl e, w)
      | Inr _ \<Rightarrow>
     (case check_registry (client w) of Inl e \<Rightarrow> (Inl e, w)
      | Inr _ \<Rightarrow> (Inr ''edge_id'', issue (AddEdge edge_name to_addr descriptor) w)))"

definition set_edge_properties ::
  "string \<Rightarrow> string \<Rightarrow> NodeProperty list \<Rightarrow> world \<Rightarrow> (error + unit) \<times> world" where
  "set_edge_properties edge_id edge_name props w =
     (case check_contract (client w) of Inl e \<Rightarrow> (Inl e, w)
      | Inr _ \<Rightarrow> (Inr (), issue (SetEdgeProperties edge_id edge_name props) w))"

definition add_properties :: "string \<Rightarrow> NodeProperty list \<Rightarrow> world \<Rightarrow> (error + unit) \<times> world" where
  "add_properties nid props w =
     (case check_contract (client w) of Inl e \<Rightarrow> (Inl e, w)
      | Inr _ \<Rightarrow> (Inr (), issue (AddProperties nid props) w))"

definition add_document :: "string \<Rightarrow> string \<Rightarrow> world \<Rightarrow> (error + string) \<times> world" where
  "add_document nid url w =
     (case check_contract (client w) of Inl e \<Rightarrow> (Inl e, w)
      | Inr _ \<Rightarrow> (Inr ''document_id'', issue (AddDocument nid url) w))"

definition remove_document :: "string \<Rightarrow> world \<Rightarrow> (error + unit) \<times> world" where
  "remove_document url w =
     (case check_contract (client w) of Inl e \<Rightarrow> (Inl e, w)
      | Inr _ \<Rightarrow> (Inr (), issue (RemoveDocument url) w))"

definition answer_edge :: "string \<Rightarrow> string \<Rightarrow> EdgeStatus \<Rightarrow> world \<Rightarrow> (error + unit) \<times> world" where
  "answer_edge to_addr edge_id status w =
     (case check_contract (client w) of Inl e \<Rightarrow> (Inl e, w)
      | Inr _ \<Rightarrow> (Inr (), issue (AnswerEdge to_addr edge_id status) w))"

text \<open>
  \<^verbatim>\<open>NodeTypeRegistry.property_id\<close> is
  \<^verbatim>\<open>return await self.contract.functions.propertyId(node_type_id, property_key).call()\<close>.
  The contract belongs to \<^verbatim>\<open>Web3(Web3.HTTPProvider(...))\<close>, the synchronous client, so
  \<^verbatim>\<open>.call()\<close> makes the request and returns the decoded value itself. When the call
  raises, that exception leaves the method. When it returns, \<^verbatim>\<open>await\<close> is applied to
  a plain value and raises TypeError. The method never returns a value.
\<close>

definition NodeTypeRegistry_property_id ::
  "NodeTypeRegistry \<Rightarrow> string \<Rightarrow> string \<Rightarrow> world \<Rightarrow> (error + string) \<times> world" where
  "NodeTypeRegistry_property_id r ntid k w =
     ((case propertyId r ntid k of
         Inl e \<Rightarrow> Inl e
       | Inr v \<Rightarrow> Inl (TypeError ''object str can't be used in 'await' expression'')),
      send (ContractCall ''propertyId'' [ntid, k]) (issue (PropertyId ntid k) w))"

section \<open>Node builder (graph\_node.py, class NodeBuilder)\<close>

record NodeBuilder =
  nb_graph_node_name :: string
  nb_properties :: "NodeProperty list"
  nb_documents :: "string list"

definition GraphNode_node :: "string \<Rightarrow> NodeBuilder" where
  "GraphNode_node name = \<lparr>nb_graph_node_name = name, nb_properties = [], nb_documents = []\<rparr>"

definition NodeBuilder_property :: "string \<Rightarrow> pyval \<Rightarrow> NodeBuilder \<Rightarrow> NodeBuilder" where
  "NodeBuilder_property k v b =
     b\<lparr>nb_properties := nb_properties b @
         [\<lparr>key = k, prop_value = v, prop_type = PT_INVALID, property_id = []\<rparr>]\<rparr>"

definition NodeBuilder_document :: "string \<Rightarrow> NodeBuilder \<Rightarrow> NodeBuilder" where
  "NodeBuilder_document url b = b\<lparr>nb_documents := nb_documents b @ [url]\<rparr>"

text \<open>
  The first loop of \<^verbatim>\<open>NodeBuilder.save\<close>. Each property object is updated in place,
  so the properties resolved before a failing read keep their new ids: the list is
  returned in both cases.
\<close>

fun resolve_property_ids ::
  "NodeProperty list \<Rightarrow> world \<Rightarrow> (error + unit) \<times> NodeProperty list \<times> world" where
  "resolve_property_ids [] w = (Inr (), [], w)"
| "resolve_property_ids (p # ps) w =
     (case node_type_registry (client w) of
        None \<Rightarrow> (Inl (AttributeError ''property_id''), p # ps, w)
      | Some r \<Rightarrow>
         (case NodeTypeRegistry_property_id r (node_type_id (client w)) (key p) w of
            (Inl e, w') \<Rightarrow> (Inl e, p # ps, w')
          | (Inr pid, w') \<Rightarrow>
             (case resolve_property_ids ps w' of
                (res, ps', w'') \<Rightarrow> (res, p\<lparr>property_id := pid\<rparr> # ps', w''))))"

text \<open>The second loop of \<^verbatim>\<open>NodeBuilder.save\<close>.\<close>

fun add_node_documents :: "string list \<Rightarrow> world \<Rightarrow> (error + unit) \<times> world" where
  "add_node_documents [] w = (Inr (), w)"
| "add_node_documents (doc # docs) w =
     (case add_document (node_id (client w)) doc w of
        (Inl e, w') \<Rightarrow> (Inl e, w')
      | (Inr _, w') \<Rightarrow> add_node_documents docs w')"

definition NodeBuilder_save ::
  "NodeBuilder \<Rightarrow> world \<Rightarrow> (error + pyval) \<times> NodeBuilder \<times> world" where
  "NodeBuilder_save b w =
     (let w0 = (if debug (client w)
                then w\<lparr>stdout := stdout w @
                       [''Saving GraphNode with NodeType '' @ nb_graph_node_name b]\<rparr>
                else w)
      in case add_node (nb_graph_node_name b) w0 of
           (Inl e, w1) \<Rightarrow> (Inl e, b, w1)
         | (Inr _, w1) \<Rightarrow>
            (case resolve_property_ids (nb_properties b) w1 of
               (Inl e, ps, w2) \<Rightarrow> (Inl e, b\<lparr>nb_properties := ps\<rparr>, w2)
             | (Inr _, ps, w2) \<Rightarrow>
                (case add_properties (node_id (client w2)) ps w2 of
                   (Inl e, w3) \<Rightarrow> (Inl e, b\<lparr>nb_properties := ps\<rparr>, w3)
                 | (Inr _, w3) \<Rightarrow>
                    (case add_node_documents (nb_documents b) w3 of
                       (Inl e, w4) \<Rightarrow> (Inl e, b\<lparr>nb_properties := ps\<rparr>, w4)
                     | (Inr _, w4) \<Rightarrow>
                        (Inr (PyStr (node_id (client w4))), b\<lparr>nb_properties := ps\<rparr>, w4)))))"

section \<open>Edge builder (graph\_node.py, class EdgeBuilder)\<close>

record EdgeBuilder =
  eb_edge_name :: string
  eb_descriptor :: string
  eb_properties :: "NodeProperty list"
  eb_documents :: "string list"
  from_node_address :: "string option"
  to_node_address :: "string option"

definition GraphNode_edge :: "string \<Rightarrow> string \<Rightarrow> EdgeBuilder" where
  "GraphNode_edge edge_type descriptor =
     \<lparr>eb_edge_name = edge_type, eb_descriptor = descriptor, eb_properties = [],
      eb_documents = [], from_node_address = None, to_node_address = None\<rparr>"

definition EdgeBuilder_property :: "string \<Rightarrow> pyval \<Rightarrow> EdgeBuilder \<Rightarrow> EdgeBuilder" where
  "EdgeBuilder_property k v b =
     b\<lparr>eb_properties := eb_properties b @
         [\<lparr>key = k, prop_value = v, prop_type = PT_INVALID, property_id = []\<rparr>]\<rparr>"

definition EdgeBuilder_document :: "string \<Rightarrow> EdgeBuilder \<Rightarrow> EdgeBuilder" where
  "EdgeBuilder_document url b = b\<lparr>eb_documents := eb_documents b @ [url]\<rparr>"

text \<open>
  \<^verbatim>\<open>from_node\<close> and \<^verbatim>\<open>to_node\<close> store what \<^verbatim>\<open>eth_utils.to_checksum_address\<close>
  makes of their argument. That library function is the parameter \<open>cs\<close>: it returns the
  checksummed address or raises.
\<close>

definition EdgeBuilder_from_node ::
  "(string \<Rightarrow> error + string) \<Rightarrow> string \<Rightarrow> EdgeBuilder \<Rightarrow> error + EdgeBuilder" where
  "EdgeBuilder_from_node cs node_address b =
     (case cs node_address of Inl e \<Rightarrow> Inl e
      | Inr a \<Rightarrow> Inr (b\<lparr>from_node_address := Some a\<rparr>))"

definition EdgeBuilder_to_node ::
  "(string \<Rightarrow> error + string) \<Rightarrow> string \<Rightarrow> EdgeBuilder \<Rightarrow> error + EdgeBuilder" where
  "EdgeBuilder_to_node cs node_address b =
     (case cs node_address of Inl e \<Rightarrow> Inl e
      | Inr a \<Rightarrow> Inr (b\<lparr>to_node_address := Some a\<rparr>))"

text \<open>
  \<^verbatim>\<open>not self.to_node_address\<close>: true of \<^verbatim>\<open>None\<close> and of the empty string.
\<close>

definition target_unset :: "EdgeBuilder \<Rightarrow> bool" where
  "target_unset b = (case to_node_address b of None \<Rightarrow> True | Some a \<Rightarrow> a = [])"

definition target_of :: "EdgeBuilder \<Rightarrow> string" where
  "target_of b = (case to_node_address b of None \<Rightarrow> [] | Some a \<Rightarrow> a)"

text \<open>The document loop of \<^verbatim>\<open>EdgeBuilder.save\<close>; the edge id is a local variable.\<close>

fun add_edge_documents :: "string \<Rightarrow> string list \<Rightarrow> world \<Rightarrow> (error + unit) \<times> world" where
  "add_edge_documents edge_id [] w = (Inr (), w)"
| "add_edge_documents edge_id (doc # docs) w =
     (case add_document edge_id doc w of
        (Inl e, w') \<Rightarrow> (Inl e, w')
      | (Inr _, w') \<Rightarrow> add_edge_documents edge_id docs w')"

definition EdgeBuilder_save :: "EdgeBuilder \<Rightarrow> world \<Rightarrow> (error + pyval) \<times> world" where
  "EdgeBuilder_save b w =
     (if target_unset b then (Inl (ValueError ''Target node address must be set''), w)
      else
        (case add_edge (eb_edge_name b) (target_of b) (eb_descriptor b) w of
           (Inl e, w1) \<Rightarrow> (Inl e, w1)
         | (Inr edge_id, w1) \<Rightarrow>
            (case (if eb_properties b \<noteq> []
                   then set_edge_properties edge_id (eb_edge_name b) (eb_properties b) w1
                   else (Inr (), w1)) of
               (Inl e, w2) \<Rightarrow> (Inl e, w2)
             | (Inr _, w2) \<Rightarrow>
                (case add_edge_documents edge_id (eb_documents b) w2 of
                   (Inl e, w3) \<Rightarrow> (Inl e, w3)
                 | (Inr _, w3) \<Rightarrow> (Inr (PyStr edge_id), w3)))))"

text \<open>\<^verbatim>\<open>EdgeBuilder.accept\<close> has no return statement: on success its value is \<^verbatim>\<open>None\<close>.\<close>

definition EdgeBuilder_accept :: "EdgeBuilder \<Rightarrow> world \<Rightarrow> (error + pyval) \<times> world" where
  "EdgeBuilder_accept b w =
     (if target_unset b then (Inl (ValueError ''Target node address must be set''), w)
      else
        (case add_edge (eb_edge_name b) (target_of b) (eb_descriptor b) w of
           (Inl e, w1) \<Rightarrow> (Inl e, w1)
         | (Inr edge_id, w1) \<Rightarrow>
            (case answer_edge (target_of b) edge_id ACCEPTED w1 of
               (Inl e, w2) \<Rightarrow> (Inl e, w2)
             | (Inr _, w2) \<Rightarrow> (Inr PyNone, w2))))"

text \<open>
  Python's truth value of an object, and \<^verbatim>\<open>x[i]\<close>. Members of an \<^verbatim>\<open>Enum\<close> are true;
  reading a tuple or a string out of range raises IndexError; the other values cannot
  be subscripted.
\<close>

fun truthy :: "pyval \<Rightarrow> bool" where
  "truthy PyNone = False"
| "truthy (PyStr s) = (s \<noteq> [])"
| "truthy (PyInt i) = (i \<noteq> 0)"
| "truthy (PyBool b) = b"
| "truthy (PyStatus s) = True"
| "truthy (PyTuple xs) = (xs \<noteq> [])"

fun subscript :: "pyval \<Rightarrow> nat \<Rightarrow> error + pyval" where
  "subscript (PyTuple xs) i =
     (if i < length xs then Inr (xs ! i) else Inl (IndexError ''tuple index out of range''))"
| "subscript (PyStr s) i =
     (if i < length s then Inr (PyStr [s ! i]) else Inl (IndexError ''string index out of range''))"
| "subscript v i = Inl (TypeError ''object is not subscriptable'')"

text \<open>
  \<^verbatim>\<open>EdgeBuilder.status\<close> calls \<^verbatim>\<open>self.parent.get_edge\<close>. The parent is a
  \<^verbatim>\<open>GraphNode\<close>, and that class defines no attribute of this name: the lookup raises
  AttributeError, and nothing is called.
\<close>

definition GraphNode_get_edge ::
  "string \<Rightarrow> string \<Rightarrow> string \<Rightarrow> world \<Rightarrow> (error + pyval) \<times> world" where
  "GraphNode_get_edge edge_name to_addr descriptor w = (Inl (AttributeError ''get_edge''), w)"

definition EdgeBuilder_status :: "EdgeBuilder \<Rightarrow> world \<Rightarrow> (error + pyval) \<times> world" where
  "EdgeBuilder_status b w =
     (if target_unset b then (Inl (ValueError ''Target node address must be set''), w)
      else
        (case GraphNode_get_edge (eb_edge_name b) (target_of b) (eb_descriptor b) w of
           (Inl e, w1) \<Rightarrow> (Inl e, w1)
         | (Inr edge_data, w1) \<Rightarrow>
             (if truthy edge_data then subscript edge_data 3 else Inr (PyStatus INVALID), w1)))"

section \<open>Concrete clients and builders\<close>

text \<open>
  A registry contract that knows two property keys, answers a third with the empty
  string, and reverts on every other key.
\<close>

definition registry_answer :: "string \<Rightarrow> string \<Rightarrow> error + string" where
  "registry_answer ntid k =
     (if k = ''name'' then Inr ''0x01''
      else if k = ''email'' then Inr ''0x02''
      else if k = ''age'' then Inr []
      else Inl (ChainError ''execution reverted''))"

definition registry_example :: NodeTypeRegistry where
  "registry_example = \<lparr>reg_debug = False, address = ''0xRegistry'', propertyId = registry_answer\<rparr>"

definition client_example :: GraphNode where
  "client_example = GraphNode_init False (Some ''0xNode'') (Some registry_example)"

definition client_no_contract :: GraphNode where
  "client_no_contract = GraphNode_init False None (Some registry_example)"

definition client_no_registry :: GraphNode where
  "client_no_registry = GraphNode_init False (Some ''0xNode'') None"

definition nb_empty :: NodeBuilder where
  "nb_empty = GraphNode_node ''Person''"

definition nb_person :: NodeBuilder where
  "nb_person =
     NodeBuilder_document ''ipfs://b'' (NodeBuilder_document ''ipfs://a''
       (NodeBuilder_property ''email'' (PyStr ''ada@example.org'')
         (NodeBuilder_property ''name'' (PyStr ''Ada'') (GraphNode_node ''Person''))))"

definition nb_age :: NodeBuilder where
  "nb_age = NodeBuilder_property ''age'' (PyInt 36) (GraphNode_node ''Person'')"

definition nb_nickname :: NodeBuilder where
  "nb_nickname =
     NodeBuilder_property ''nickname'' (PyStr ''al'')
       (NodeBuilder_property ''name'' (PyStr ''Ada'') (GraphNode_node ''Person''))"

definition eb_no_target :: EdgeBuilder where
  "eb_no_target =
     EdgeBuilder_document ''ipfs://a''
       (EdgeBuilder_property ''since'' (PyInt 2020) (GraphNode_edge ''KNOWS'' ''friend''))"

definition eb_target :: EdgeBuilder where
  "eb_target = eb_no_target\<lparr>to_node_address := Some ''0xTarget''\<rparr>"

section \<open>Unfolding rules and facts about the loops\<close>

lemmas client_defs =
  add_node_def add_edge_def set_edge_properties_def add_properties_def add_document_def
  remove_document_def answer_edge_def check_contract_def check_registry_def issue_def
  send_def NodeTypeRegistry_property_id_def GraphNode_get_edge_def

lemmas example_defs =
  registry_answer_def registry_example_def client_example_def client_no_contract_def
  client_no_registry_def nb_empty_def nb_person_def nb_age_def nb_nickname_def
  eb_no_target_def eb_target_def GraphNode_init_def new_world_def
  GraphNode_node_def NodeBuilder_property_def NodeBuilder_document_def GraphNode_edge_def
  EdgeBuilder_property_def EdgeBuilder_document_def


text \<open>So a resolution loop that ends normally ran over the empty list.\<close>

lemma resolve_property_ids_ok:
  "resolve_property_ids ps w = (Inr (), ps', w') \<Longrightarrow> ps = [] \<and> ps' = [] \<and> w' = w"
  by (cases ps)
     (auto simp: NodeTypeRegistry_property_id_def split: option.splits sum.splits prod.splits)

lemma add_node_documents_ok:
  "add_node_documents docs w = (Inr (), w') \<Longrightarrow>
     w' = w\<lparr>calls := calls w @ map (AddDocument (node_id (client w))) docs\<rparr>"
proof (induction docs arbitrary: w w')
  case Nil
  then show ?case by simp
next
  case (Cons d ds)
  from Cons.prems show ?case
    by (auto simp: add_document_def check_contract_def issue_def
             split: option.splits sum.splits prod.splits dest!: Cons.IH)
qed

text \<open>
  A \<^verbatim>\<open>NodeBuilder.save\<close> that returns normally had no property to resolve; it ran
  \<^verbatim>\<open>add_node\<close>, \<^verbatim>\<open>add_properties\<close> with the empty list and \<^verbatim>\<open>add_document\<close> for
  each document in order, and made no contract call.
\<close>

lemma NodeBuilder_save_ok:
  assumes "NodeBuilder_save b w = (Inr r, b', w')"
  shows "nb_properties b = []
       \<and> calls w' =
           calls w @ [AddNode (nb_graph_node_name b), AddProperties (node_id (client w)) []]
             @ map (AddDocument (node_id (client w))) (nb_documents b)
       \<and> requests w' = requests w"
  using assms
  by (auto simp: NodeBuilder_save_def Let_def add_node_def add_properties_def
        check_contract_def check_registry_def issue_def
        split: option.splits sum.splits prod.splits if_splits
        dest!: resolve_property_ids_ok add_node_documents_ok)


text \<open>With a bound contract the document loop of \<^verbatim>\<open>EdgeBuilder.save\<close> runs to its end.\<close>

lemma add_edge_documents_bound:
  "contract (client w) \<noteq> None \<Longrightarrow>
     add_edge_documents edge_id docs w =
       (Inr (), w\<lparr>calls := calls w @ map (AddDocument edge_id) docs\<rparr>)"
proof (induction docs arbitrary: w)
  case Nil
  then show ?case by simp
next
  case (Cons d ds)
  let ?w1 = "issue (AddDocument edge_id d) w"
  from Cons.prems have step: "add_document edge_id d w = (Inr ''document_id'', ?w1)"
    by (auto simp: add_document_def check_contract_def)
  from Cons.prems have "contract (client ?w1) \<noteq> None"
    by (simp add: issue_def)
  from Cons.IH [OF this] step show ?case
    by (simp add: issue_def)
qed

text \<open>
  The constructor leaves the target unset, and the fluent calls other than
  \<^verbatim>\<open>to_node\<close> do not touch it.
\<close>

lemma GraphNode_edge_no_target: "to_node_address (GraphNode_edge t d) = None"
  by (simp add: GraphNode_edge_def)

lemma EdgeBuilder_property_target:
  "to_node_address (EdgeBuilder_property k v b) = to_node_address b"
  by (simp add: EdgeBuilder_property_def)

lemma EdgeBuilder_document_target:
  "to_node_address (EdgeBuilder_document url b) = to_node_address b"
  by (simp add: EdgeBuilder_document_def)

lemma EdgeBuilder_from_node_target:
  "EdgeBuilder_from_node cs a b = Inr b' \<Longrightarrow> to_node_address b' = to_node_address b"
  by (auto simp: EdgeBuilder_from_node_def split: sum.splits)

lemma target_set: "to_node_address b = Some a \<Longrightarrow> a \<noteq> [] \<Longrightarrow> \<not> target_unset b \<and> target_of b = a"
  by (simp add: target_unset_def target_of_def)

section \<open>The claims\<close>




text \<open>
  C3, as amended. Every chain-mutating operation of \<^verbatim>\<open>GraphNode\<close> checks the contract
  handle first and fails, with the state unchanged, when it is unset. Only
  \<^verbatim>\<open>add_node\<close> and \<^verbatim>\<open>add_edge\<close> check the registry client as well. The other five
  (\<^verbatim>\<open>set_edge_properties\<close>, \<^verbatim>\<open>add_properties\<close>, \<^verbatim>\<open>add_document\<close>,
  \<^verbatim>\<open>remove_document\<close>, \<^verbatim>\<open>answer_edge\<close>) go through whenever the contract is bound,
  whatever the registry field holds.
\<close>

theorem GraphNode_guards:
  "(contract (client w) = None \<longrightarrow>
       add_node n w = (Inl (ValueError ''Contract not initialized''), w)
     \<and> add_edge en a d w = (Inl (ValueError ''Contract not initialized''), w)
     \<and> set_edge_properties eid en ps w = (Inl (ValueError ''Contract not initialized''), w)
     \<and> add_properties nid ps w = (Inl (ValueError ''Contract not initialized''), w)
     \<and> add_document nid url w = (Inl (ValueError ''Contract not initialized''), w)
     \<and> remove_document url w = (Inl (ValueError ''Contract not initialized''), w)
     \<and> answer_edge a eid st w = (Inl (ValueError ''Contract not initialized''), w))
   \<and> (contract (client w) \<noteq> None \<and> node_type_registry (client w) = None \<longrightarrow>
       add_node n w = (Inl (ValueError ''Registry not initialized''), w)
     \<and> add_edge en a d w = (Inl (ValueError ''Registry not initialized''), w))
   \<and> (contract (client w) \<noteq> None \<longrightarrow>
       set_edge_properties eid en ps w = (Inr (), issue (SetEdgeProperties eid en ps) w)
     \<and> add_properties nid ps w = (Inr (), issue (AddProperties nid ps) w)
     \<and> add_document nid url w = (Inr ''document_id'', issue (AddDocument nid url) w)
     \<and> remove_document url w = (Inr (), issue (RemoveDocument url) w)
     \<and> answer_edge a eid st w = (Inr (), issue (AnswerEdge a eid st) w))"
  by (auto simp: add_node_def add_edge_def set_edge_properties_def add_properties_def
        add_document_def remove_document_def answer_edge_def check_contract_def
        check_registry_def)

text \<open>A client without a contract, and a client with a contract and no registry.\<close>

theorem GraphNode_guards_witness:
  "contract (client (new_world client_no_contract)) = None
   \<and> add_node ''Person'' (new_world client_no_contract) =
       (Inl (ValueError ''Contract not initialized''), new_world client_no_contract)
   \<and> answer_edge ''0xTarget'' ''edge_id'' ACCEPTED (new_world client_no_contract) =
       (Inl (ValueError ''Contract not initialized''), new_world client_no_contract)
   \<and> contract (client (new_world client_no_registry)) \<noteq> None
   \<and> node_type_registry (client (new_world client_no_registry)) = None
   \<and> add_node ''Person'' (new_world client_no_registry) =
       (Inl (ValueError ''Registry not initialized''), new_world client_no_registry)
   \<and> add_edge ''KNOWS'' ''0xTarget'' ''friend'' (new_world client_no_registry) =
       (Inl (ValueError ''Registry not initialized''), new_world client_no_registry)
   \<and> add_document ''n1'' ''ipfs://a'' (new_world client_no_registry) =
       (Inr ''document_id'', issue (AddDocument ''n1'' ''ipfs://a'') (new_world client_no_registry))"
proof -
  have c: "contract (client (new_world client_no_contract)) = None"
    by (simp add: example_defs)
  have r: "contract (client (new_world client_no_registry)) \<noteq> None"
      "node_type_registry (client (new_world client_no_registry)) = None"
    by (simp_all add: example_defs)
  from GraphNode_guards [of "new_world client_no_contract" "''Person''" "''KNOWS''"
      "''0xTarget''" "''friend''" "''edge_id''" "[]" "''n1''" "''ipfs://a''" ACCEPTED] c
  have "add_node ''Person'' (new_world client_no_contract) =
       (Inl (ValueError ''Contract not initialized''), new_world client_no_contract)"
    "answer_edge ''0xTarget'' ''edge_id'' ACCEPTED (new_world client_no_contract) =
       (Inl (ValueError ''Contract not initialized''), new_world client_no_contract)"
    by simp_all
  moreover
  from GraphNode_guards [of "new_world client_no_registry" "''Person''" "''KNOWS''"
      "''0xTarget''" "''friend''" "''edge_id''" "[]" "''n1''" "''ipfs://a''" ACCEPTED] r
  have "add_node ''Person'' (new_world client_no_registry) =
       (Inl (ValueError ''Registry not initialized''), new_world client_no_registry)"
    "add_edge ''KNOWS'' ''0xTarget'' ''friend'' (new_world client_no_registry) =
       (Inl (ValueError ''Registry not initialized''), new_world client_no_registry)"
    "add_document ''n1'' ''ipfs://a'' (new_world client_no_registry) =
       (Inr ''document_id'', issue (AddDocument ''n1'' ''ipfs://a'') (new_world client_no_registry))"
    by simp_all
  ultimately show ?thesis using c r by simp
qed

text \<open>
  Counterexample to C3 as stated: on a client whose registry is unset,
  \<^verbatim>\<open>add_properties\<close> does not fail and runs.
\<close>

theorem add_properties_without_registry_counterexample:
  "node_type_registry (client (new_world client_no_registry)) = None
   \<and> add_properties ''n1'' [] (new_world client_no_registry) =
       (Inr (), (new_world client_no_registry)\<lparr>calls := [AddProperties ''n1'' []]\<rparr>)"
  by (simp add: client_defs example_defs)


text \<open>
  C5. \<^verbatim>\<open>add_node\<close> never writes the client object: \<open>node_id\<close> and
  \<open>node_type_id\<close> are after the call what they were before it. On a fresh client they
  stay empty although the result of \<^verbatim>\<open>add_node\<close> names the node
  \<open>generated_node_id\<close>, and \<^verbatim>\<open>NodeBuilder.save\<close> returns the empty string.
\<close>

theorem add_node_leaves_session_fields:
  "client (snd (add_node n w)) = client w
   \<and> fst (add_node ''Person'' (new_world client_example)) =
       Inr \<lparr>res_node_id = ''generated_node_id'', res_properties = []\<rparr>
   \<and> node_id (client (snd (add_node ''Person'' (new_world client_example)))) = []
   \<and> node_type_id (client (snd (add_node ''Person'' (new_world client_example)))) = []
   \<and> fst (NodeBuilder_save nb_empty (new_world client_example)) = Inr (PyStr [])"
proof -
  have "client (snd (add_node n w)) = client w"
    by (simp add: client_defs split: option.splits)
  then show ?thesis
    by (simp add: NodeBuilder_save_def client_defs example_defs)
qed

text \<open>
  C6. \<^verbatim>\<open>NodeBuilder.save\<close> on a builder with no property and no document:
  \<^verbatim>\<open>add_node\<close> is followed by \<^verbatim>\<open>add_properties\<close> with the empty list; no document
  call is made.
\<close>

theorem NodeBuilder_save_empty_builder:
  "nb_properties nb_empty = [] \<and> nb_documents nb_empty = []
   \<and> NodeBuilder_save nb_empty (new_world client_example) =
       (Inr (PyStr []), nb_empty,
        (new_world client_example)\<lparr>calls := [AddNode ''Person'', AddProperties [] []]\<rparr>)"
  by (simp add: NodeBuilder_save_def client_defs example_defs)

text \<open>
  C7. On an edge builder whose target was never set, \<^verbatim>\<open>save\<close>, \<^verbatim>\<open>accept\<close> and
  \<^verbatim>\<open>status\<close> each raise the unset-target error and leave the state as it was: no
  operation of the client has run, no contract call was made, and \<^verbatim>\<open>status\<close> has not
  reached its \<^verbatim>\<open>get_edge\<close> lookup.
\<close>

theorem EdgeBuilder_unset_target:
  assumes "to_node_address b = None"
  shows "EdgeBuilder_save b w = (Inl (ValueError ''Target node address must be set''), w)
       \<and> EdgeBuilder_accept b w = (Inl (ValueError ''Target node address must be set''), w)
       \<and> EdgeBuilder_status b w = (Inl (ValueError ''Target node address must be set''), w)"
  using assms
  by (simp add: EdgeBuilder_save_def EdgeBuilder_accept_def EdgeBuilder_status_def
        target_unset_def)

text \<open>A builder made by \<^verbatim>\<open>edge\<close>, \<^verbatim>\<open>property\<close> and \<^verbatim>\<open>document\<close> only.\<close>

theorem EdgeBuilder_unset_target_witness:
  "to_node_address eb_no_target = None
   \<and> EdgeBuilder_save eb_no_target (new_world client_example) =
       (Inl (ValueError ''Target node address must be set''), new_world client_example)
   \<and> EdgeBuilder_accept eb_no_target (new_world client_example) =
       (Inl (ValueError ''Target node address must be set''), new_world client_example)
   \<and> EdgeBuilder_status eb_no_target (new_world client_example) =
       (Inl (ValueError ''Target node address must be set''), new_world client_example)"
proof -
  have h: "to_node_address eb_no_target = None"
    by (simp add: eb_no_target_def EdgeBuilder_document_target EdgeBuilder_property_target
          GraphNode_edge_no_target)
  from EdgeBuilder_unset_target [OF h, of "new_world client_example"] h
  show ?thesis by simp
qed

text \<open>
  C8. With the target set, on a client whose contract and registry are bound,
  \<^verbatim>\<open>accept\<close> runs exactly two operations, in this order: the create-edge call, then the
  answer-edge call for the new edge with status ACCEPTED. The properties and documents
  of the builder play no part: no batch call and no document call is made.
\<close>

theorem EdgeBuilder_accept_calls:
  assumes "to_node_address b = Some a" and "a \<noteq> []"
    and "contract (client w) \<noteq> None" and "node_type_registry (client w) \<noteq> None"
  shows "snd (EdgeBuilder_accept b w) =
           w\<lparr>calls := calls w @
               [AddEdge (eb_edge_name b) a (eb_descriptor b), AnswerEdge a ''edge_id'' ACCEPTED]\<rparr>"
  using assms target_set [OF assms(1,2)]
  by (auto simp: EdgeBuilder_accept_def add_edge_def answer_edge_def check_contract_def
        check_registry_def issue_def)

text \<open>The builder of the example carries one property and one document.\<close>

theorem EdgeBuilder_accept_calls_witness:
  "eb_properties eb_target \<noteq> [] \<and> eb_documents eb_target \<noteq> []
   \<and> snd (EdgeBuilder_accept eb_target (new_world client_example)) =
       (new_world client_example)
         \<lparr>calls := [AddEdge ''KNOWS'' ''0xTarget'' ''friend'',
                    AnswerEdge ''0xTarget'' ''edge_id'' ACCEPTED]\<rparr>"
proof -
  have h: "to_node_address eb_target = Some ''0xTarget''" "''0xTarget'' \<noteq> []"
      "contract (client (new_world client_example)) \<noteq> None"
      "node_type_registry (client (new_world client_example)) \<noteq> None"
    by (simp_all add: example_defs)
  from EdgeBuilder_accept_calls [OF h] show ?thesis
    by (simp add: example_defs)
qed

text \<open>
  C9. The code at an input that separates it from the claim. With the target set,
  \<^verbatim>\<open>status\<close> raises AttributeError at \<^verbatim>\<open>self.parent.get_edge\<close>, with the state
  unchanged: it returns neither INVALID nor a stored status, and the expression
  \<^verbatim>\<open>edge_data[3] if edge_data else EdgeStatus.INVALID\<close> is never reached.
\<close>

theorem EdgeBuilder_status_raises_AttributeError:
  assumes "to_node_address b = Some a" and "a \<noteq> []"
  shows "EdgeBuilder_status b w = (Inl (AttributeError ''get_edge''), w)"
  using target_set [OF assms]
  by (simp add: EdgeBuilder_status_def GraphNode_get_edge_def)

theorem EdgeBuilder_status_raises_AttributeError_witness:
  "to_node_address eb_target = Some ''0xTarget''
   \<and> EdgeBuilder_status eb_target (new_world client_example) =
       (Inl (AttributeError ''get_edge''), new_world client_example)"
proof -
  have h: "to_node_address eb_target = Some ''0xTarget''" "''0xTarget'' \<noteq> []"
    by (simp_all add: example_defs)
  from EdgeBuilder_status_raises_AttributeError [OF h, of "new_world client_example"] h(1)
  show ?thesis by simp
qed

text \<open>
  C10. With the target set, on a client whose contract and registry are bound,
  \<^verbatim>\<open>accept\<close> returns \<^verbatim>\<open>None\<close>: the edge id that its create-edge step produced
  is dropped, whereas \<^verbatim>\<open>save\<close> on the same builder returns that id.
\<close>

theorem EdgeBuilder_accept_returns_None:
  assumes "to_node_address b = Some a" and "a \<noteq> []"
    and "contract (client w) \<noteq> None" and "node_type_registry (client w) \<noteq> None"
  shows "fst (EdgeBuilder_accept b w) = Inr PyNone
       \<and> fst (add_edge (eb_edge_name b) a (eb_descriptor b) w) = Inr ''edge_id''
       \<and> fst (EdgeBuilder_save b w) = Inr (PyStr ''edge_id'')"
proof -
  from assms(1,2) have t: "\<not> target_unset b" "target_of b = a"
    by (simp_all add: target_set)
  let ?w1 = "issue (AddEdge (eb_edge_name b) a (eb_descriptor b)) w"
  from assms(3,4) have e: "add_edge (eb_edge_name b) a (eb_descriptor b) w = (Inr ''edge_id'', ?w1)"
    by (auto simp: add_edge_def check_contract_def check_registry_def)
  from assms(3) have c1: "contract (client ?w1) \<noteq> None"
    by (simp add: issue_def)
  then have acc: "fst (EdgeBuilder_accept b w) = Inr PyNone"
    using t e by (auto simp: EdgeBuilder_accept_def answer_edge_def check_contract_def)
  have "\<exists>w2. (if eb_properties b \<noteq> []
        then set_edge_properties ''edge_id'' (eb_edge_name b) (eb_properties b) ?w1
        else (Inr (), ?w1)) = (Inr (), w2) \<and> contract (client w2) \<noteq> None"
  proof (cases "eb_properties b = []")
    case True
    with c1 show ?thesis by simp
  next
    case False
    with c1 show ?thesis
      by (auto simp: set_edge_properties_def check_contract_def issue_def)
  qed
  then obtain w2 where p: "(if eb_properties b \<noteq> []
        then set_edge_properties ''edge_id'' (eb_edge_name b) (eb_properties b) ?w1
        else (Inr (), ?w1)) = (Inr (), w2)" and c2: "contract (client w2) \<noteq> None"
    by blast
  from t e p add_edge_documents_bound [OF c2, of "''edge_id''" "eb_documents b"]
  have "fst (EdgeBuilder_save b w) = Inr (PyStr ''edge_id'')"
    by (simp add: EdgeBuilder_save_def)
  with acc e show ?thesis by simp
qed

theorem EdgeBuilder_accept_returns_None_witness:
  "fst (EdgeBuilder_accept eb_target (new_world client_example)) = Inr PyNone
   \<and> fst (EdgeBuilder_save eb_target (new_world client_example)) = Inr (PyStr ''edge_id'')"
proof -
  have h: "to_node_address eb_target = Some ''0xTarget''" "''0xTarget'' \<noteq> []"
      "contract (client (new_world client_example)) \<noteq> None"
      "node_type_registry (client (new_world client_example)) \<noteq> None"
    by (simp_all add: example_defs)
  from EdgeBuilder_accept_returns_None [OF h] show ?thesis
    by simp
qed

end
